theory Spec2Isabelle
  imports Main
begin

section \<open>Python values used by \<open>project3.py\<close>\<close>

text \<open>
  A Python \<open>str\<close> is a sequence of Unicode code points and \<open>len\<close> counts code points, so
  a character is its code point (a natural number) and a string is a list of them. The
  meter glyph of \<open>print_strength_meter\<close> (U+2588) does not fit an 8-bit character.
  \<open>str\<close> writes an ASCII literal of the source as such a string.
\<close>

type_synonym pychar = nat
type_synonym pystr = "pychar list"

definition str :: "string \<Rightarrow> pystr" where
  "str s = map of_char s"

text \<open>The exceptions the program can meet, each with the message \<open>str(e)\<close> gives.\<close>

datatype error = ValueError pystr | IndexError pystr | KeyError pystr


subsection \<open>The constants of the \<open>string\<close> module\<close>

definition ascii_uppercase :: pystr where
  "ascii_uppercase = str ''ABCDEFGHIJKLMNOPQRSTUVWXYZ''"

definition ascii_lowercase :: pystr where
  "ascii_lowercase = str ''abcdefghijklmnopqrstuvwxyz''"

definition digits :: pystr where
  "digits = str ''0123456789''"

text \<open>
  \<open>string.punctuation\<close> is the 32 ASCII characters
  \<^verbatim>\<open>!"#$%&'()*+,-./\<close> (33 to 47), \<^verbatim>\<open>:;<=>?@\<close> (58 to 64),
  \<^verbatim>\<open>[\]^_`\<close> (91 to 96) and \<^verbatim>\<open>{|}~\<close> (123 to 126), in this order.
\<close>

definition punctuation :: pystr where
  "punctuation =
     [33, 34, 35, 36, 37, 38, 39, 40, 41, 42, 43, 44, 45, 46, 47,
      58, 59, 60, 61, 62, 63, 64,
      91, 92, 93, 94, 95, 96,
      123, 124, 125, 126]"

subsection \<open>Character classes\<close>

text \<open>
  \<open>c.isupper()\<close>, \<open>c.islower()\<close> and \<open>c.isdigit()\<close> on a one-character string read the
  interpreter's Unicode tables, which are no part of this program. On the ASCII range
  the tables are fixed by the Unicode standard (A to Z, a to z, 0 to 9); beyond it they
  are a parameter \<open>ucd\<close> of the model, about which nothing is assumed.
\<close>

record ucd =
  Uppercase :: "pychar \<Rightarrow> bool"
  Lowercase :: "pychar \<Rightarrow> bool"
  Digit :: "pychar \<Rightarrow> bool"

definition isupper :: "ucd \<Rightarrow> pychar \<Rightarrow> bool" where
  "isupper u c = (if c < 128 then 65 \<le> c \<and> c \<le> 90 else Uppercase u c)"

definition islower :: "ucd \<Rightarrow> pychar \<Rightarrow> bool" where
  "islower u c = (if c < 128 then 97 \<le> c \<and> c \<le> 122 else Lowercase u c)"

definition isdigit :: "ucd \<Rightarrow> pychar \<Rightarrow> bool" where
  "isdigit u c = (if c < 128 then 48 \<le> c \<and> c \<le> 57 else Digit u c)"

text \<open>\<open>any(f(c) for c in s)\<close>: true at the first character that passes, false at the end.\<close>

fun any :: "('a \<Rightarrow> bool) \<Rightarrow> 'a list \<Rightarrow> bool" where
  "any f [] = False"
| "any f (c # s) = (if f c then True else any f s)"

text \<open>\<open>c in s\<close> for a one-character \<open>c\<close>.\<close>

fun contains :: "pystr \<Rightarrow> pychar \<Rightarrow> bool" where
  "contains [] c = False"
| "contains (d # s) c = (if d = c then True else contains s c)"

section \<open>\<open>PasswordStrength\<close>\<close>

datatype PasswordStrength = VERY_WEAK | WEAK | MEDIUM | STRONG | VERY_STRONG

text \<open>\<open>strength.value\<close>.\<close>

fun strength_value :: "PasswordStrength \<Rightarrow> int" where
  "strength_value VERY_WEAK = 0"
| "strength_value WEAK = 1"
| "strength_value MEDIUM = 2"
| "strength_value STRONG = 3"
| "strength_value VERY_STRONG = 4"

text \<open>Decimal digits of a natural number and \<open>str(n)\<close> of an integer.\<close>

fun str_nat :: "nat \<Rightarrow> pystr" where
  "str_nat n = (if n < 10 then [48 + n] else str_nat (n div 10) @ [48 + n mod 10])"

definition str_int :: "int \<Rightarrow> pystr" where
  "str_int i = (if i < 0 then 45 # str_nat (nat (- i)) else str_nat (nat i))"

text \<open>
  \<open>PasswordStrength(n)\<close>, the lookup of a member by value: a value that no member has
  raises \<open>ValueError\<close>.
\<close>

definition PasswordStrength_call :: "int \<Rightarrow> error + PasswordStrength" where
  "PasswordStrength_call n =
     (if n = 0 then Inr VERY_WEAK
      else if n = 1 then Inr WEAK
      else if n = 2 then Inr MEDIUM
      else if n = 3 then Inr STRONG
      else if n = 4 then Inr VERY_STRONG
      else Inl (ValueError (str_int n @ str '' is not a valid PasswordStrength'')))"

section \<open>\<open>PasswordGenerator\<close>\<close>

text \<open>The fields of the object; \<open>length\<close> is the field \<open>gen_length\<close>.\<close>

record PasswordGenerator =
  gen_length :: int
  include_uppercase :: bool
  include_lowercase :: bool
  include_numbers :: bool
  include_symbols :: bool
  min_length :: int
  max_length :: int

text \<open>\<open>__init__\<close>.\<close>

definition init :: PasswordGenerator where
  "init = \<lparr>gen_length = 12, include_uppercase = True, include_lowercase = True,
     include_numbers = True, include_symbols = True, min_length = 6, max_length = 32\<rparr>"

subsection \<open>\<open>assess_strength\<close>\<close>

text \<open>
  The method reads and writes no field; it returns its result and the object as the
  call leaves it.
\<close>

definition assess_strength ::
  "ucd \<Rightarrow> PasswordGenerator \<Rightarrow> pystr \<Rightarrow> (error + PasswordStrength) \<times> PasswordGenerator" where
  "assess_strength u self password =
     (let strength = (0::int);
          strength = (if int (length password) \<ge> 12 then strength + 1 else strength);
          strength = (if int (length password) \<ge> 16 then strength + 1 else strength);
          strength = (if any (isupper u) password then strength + 1 else strength);
          strength = (if any (islower u) password then strength + 1 else strength);
          strength = (if any (isdigit u) password then strength + 1 else strength);
          strength = (if any (contains punctuation) password then strength + 1 else strength)
      in (PasswordStrength_call (min strength 4), self))"

subsection \<open>\<open>generate_password\<close>\<close>

text \<open>
  \<open>random.SystemRandom()\<close> reads the operating system's entropy. The model takes the
  source as the sequence \<open>rnd\<close> of the raw numbers it will deliver, one per draw, about
  which nothing is assumed. \<open>choice(seq)\<close> raises \<open>IndexError\<close> on an empty sequence and
  otherwise returns \<open>seq[k]\<close> for a \<open>k\<close> below \<open>len(seq)\<close>; the raw number \<open>r\<close> of the draw
  fixes \<open>k\<close> as \<open>r mod len(seq)\<close>, so each index below \<open>len(seq)\<close> can be drawn and no
  other.
\<close>

type_synonym random_source = "nat \<Rightarrow> nat"

definition choice :: "pystr \<Rightarrow> nat \<Rightarrow> error + pystr" where
  "choice seq r =
     (if seq = [] then Inl (IndexError (str ''Cannot choose from an empty sequence''))
      else Inr [seq ! (r mod length seq)])"

text \<open>
  \<open>''.join(random.SystemRandom().choice(charset) for _ in range(n))\<close>: \<open>n\<close> draws in
  order, each from the head of the source, joined; the first exception ends the loop.
\<close>

fun join_choices :: "pystr \<Rightarrow> nat \<Rightarrow> random_source \<Rightarrow> error + pystr" where
  "join_choices charset 0 rnd = Inr []"
| "join_choices charset (Suc n) rnd =
     (case choice charset (rnd 0) of
        Inl e \<Rightarrow> Inl e
      | Inr c \<Rightarrow>
          (case join_choices charset n (\<lambda>i. rnd (Suc i)) of
             Inl e \<Rightarrow> Inl e
           | Inr s \<Rightarrow> Inr (c @ s)))"

text \<open>
  The method assigns to no field; it returns its result and the object as the call
  leaves it. \<open>range(self.length)\<close> is empty for a negative length.
\<close>

definition generate_password ::
  "PasswordGenerator \<Rightarrow> random_source \<Rightarrow> (error + pystr) \<times> PasswordGenerator" where
  "generate_password self rnd =
     (let charset = [];
          charset = (if include_uppercase self then charset @ ascii_uppercase else charset);
          charset = (if include_lowercase self then charset @ ascii_lowercase else charset);
          charset = (if include_numbers self then charset @ digits else charset);
          charset = (if include_symbols self then charset @ punctuation else charset)
      in if charset = []
         then (Inl (ValueError (str ''At least one character type must be selected'')), self)
         else (join_choices charset (nat (gen_length self)) rnd, self))"

subsection \<open>\<open>print_strength_meter\<close> and \<open>display_help\<close>\<close>








subsection \<open>\<open>run\<close>\<close>










section \<open>Specification-side definitions\<close>

text \<open>
  The active character pool as one expression: the sets of the enabled categories, in
  the order uppercase, lowercase, digits, punctuation.
\<close>

definition charset_of :: "PasswordGenerator \<Rightarrow> pystr" where
  "charset_of self =
     (if include_uppercase self then ascii_uppercase else [])
     @ (if include_lowercase self then ascii_lowercase else [])
     @ (if include_numbers self then digits else [])
     @ (if include_symbols self then punctuation else [])"

text \<open>
  The score as the specification words it: six independent tests, one point each, the
  sum clamped to 4.
\<close>

definition spec_raw_sum :: "ucd \<Rightarrow> pystr \<Rightarrow> int" where
  "spec_raw_sum u p =
     (if length p \<ge> 12 then 1 else 0)
     + (if length p \<ge> 16 then 1 else 0)
     + (if \<exists>c \<in> set p. isupper u c then 1 else 0)
     + (if \<exists>c \<in> set p. islower u c then 1 else 0)
     + (if \<exists>c \<in> set p. isdigit u c then 1 else 0)
     + (if \<exists>c \<in> set p. c \<in> set punctuation then 1 else 0)"

definition spec_level :: "ucd \<Rightarrow> pystr \<Rightarrow> int" where
  "spec_level u p = min (spec_raw_sum u p) 4"

text \<open>A Unicode table that puts no character beyond ASCII in any class, for examples.\<close>

definition ascii_only :: ucd where
  "ascii_only = \<lparr>Uppercase = (\<lambda>c. False), Lowercase = (\<lambda>c. False), Digit = (\<lambda>c. False)\<rparr>"

section \<open>Auxiliary facts\<close>

lemma any_iff: "any f s \<longleftrightarrow> (\<exists>c \<in> set s. f c)"
  by (induction s) auto

lemma contains_iff: "contains s c \<longleftrightarrow> c \<in> set s"
  by (induction s) auto

lemma PasswordStrength_call_value:
  assumes "0 \<le> n" and "n \<le> 4"
  shows "\<exists>s. PasswordStrength_call n = Inr s \<and> strength_value s = n"
proof -
  from assms have "n = 0 \<or> n = 1 \<or> n = 2 \<or> n = 3 \<or> n = 4" by arith
  then show ?thesis by (auto simp: PasswordStrength_call_def)
qed

lemma choice_nonempty:
  "seq \<noteq> [] \<Longrightarrow> \<exists>c. choice seq r = Inr [c] \<and> c \<in> set seq"
  by (simp add: choice_def)

lemma join_choices_ok:
  "charset \<noteq> [] \<Longrightarrow>
     \<exists>s. join_choices charset n rnd = Inr s \<and> length s = n \<and> set s \<subseteq> set charset"
proof (induction n arbitrary: rnd)
  case 0
  then show ?case by simp
next
  case (Suc n)
  from choice_nonempty [OF Suc.prems] obtain c
    where c: "choice charset (rnd 0) = Inr [c]" "c \<in> set charset" by blast
  from Suc.IH [OF Suc.prems] obtain s
    where s: "join_choices charset n (\<lambda>i. rnd (Suc i)) = Inr s" "length s = n"
      "set s \<subseteq> set charset" by blast
  from c s show ?case by simp
qed

lemma constants_nonempty:
  "ascii_uppercase \<noteq> []" "ascii_lowercase \<noteq> []" "digits \<noteq> []" "punctuation \<noteq> []"
  by (simp_all add: ascii_uppercase_def ascii_lowercase_def digits_def punctuation_def str_def)

lemma generate_password_charset:
  "generate_password self rnd =
     (if charset_of self = []
      then (Inl (ValueError (str ''At least one character type must be selected'')), self)
      else (join_choices (charset_of self) (nat (gen_length self)) rnd, self))"
  by (simp add: generate_password_def charset_of_def Let_def constants_nonempty)

lemma charset_of_empty:
  "charset_of self = [] \<longleftrightarrow>
     \<not> include_uppercase self \<and> \<not> include_lowercase self
     \<and> \<not> include_numbers self \<and> \<not> include_symbols self"
  by (simp add: charset_of_def constants_nonempty)

lemma set_charset_of:
  "set (charset_of self) =
     (if include_uppercase self then set ascii_uppercase else {})
     \<union> (if include_lowercase self then set ascii_lowercase else {})
     \<union> (if include_numbers self then set digits else {})
     \<union> (if include_symbols self then set punctuation else {})"
  by (simp add: charset_of_def Un_assoc)

text \<open>The value that \<open>assess_strength\<close> hands to \<open>PasswordStrength\<close>, and its bounds.\<close>

lemma assess_strength_sum:
  "fst (assess_strength u self p) = PasswordStrength_call (spec_level u p)"
  by (simp add: assess_strength_def spec_level_def spec_raw_sum_def Let_def any_iff contains_iff)

lemma spec_level_range: "0 \<le> spec_level u p \<and> spec_level u p \<le> 4"
  by (simp add: spec_level_def spec_raw_sum_def)









section \<open>The generator\<close>

text \<open>
  C1. For every configuration whose length lies in 6 to 32 and which enables at least
  one category, and for every behaviour of the random source, \<open>generate_password\<close>
  returns a string, and the length of that string is the configured length.
\<close>

theorem generate_password_length:
  assumes "6 \<le> gen_length self" and "gen_length self \<le> 32"
    and "include_uppercase self \<or> include_lowercase self
         \<or> include_numbers self \<or> include_symbols self"
  shows "\<exists>password. fst (generate_password self rnd) = Inr password
           \<and> int (length password) = gen_length self"
proof -
  from assms(3) have ne: "charset_of self \<noteq> []" by (auto simp: charset_of_empty)
  from join_choices_ok [OF ne] obtain s
    where "join_choices (charset_of self) (nat (gen_length self)) rnd = Inr s"
      and "length s = nat (gen_length self)" by blast
  with ne assms(1) show ?thesis by (simp add: generate_password_charset)
qed

theorem generate_password_length_witness:
  "\<exists>password.
     fst (generate_password (init\<lparr>gen_length := 6, include_symbols := False\<rparr>) (\<lambda>i. 7 * i + 3))
       = Inr password \<and> int (length password) = 6"
  using generate_password_length
    [of "init\<lparr>gen_length := 6, include_symbols := False\<rparr>" "\<lambda>i. 7 * i + 3"]
  by (simp add: init_def)

text \<open>
  C2. For every configuration that enables at least one category, \<open>generate_password\<close>
  returns a string each of whose characters belongs to the union of the character sets
  of the enabled categories: \<open>ascii_uppercase\<close>, \<open>ascii_lowercase\<close>, \<open>digits\<close>,
  \<open>punctuation\<close>.
\<close>

theorem generate_password_charset_members:
  assumes "include_uppercase self \<or> include_lowercase self
           \<or> include_numbers self \<or> include_symbols self"
  shows "\<exists>password. fst (generate_password self rnd) = Inr password
           \<and> set password \<subseteq>
               (if include_uppercase self then set ascii_uppercase else {})
               \<union> (if include_lowercase self then set ascii_lowercase else {})
               \<union> (if include_numbers self then set digits else {})
               \<union> (if include_symbols self then set punctuation else {})"
proof -
  from assms have ne: "charset_of self \<noteq> []" by (auto simp: charset_of_empty)
  from join_choices_ok [OF ne] obtain s
    where "join_choices (charset_of self) (nat (gen_length self)) rnd = Inr s"
      and "set s \<subseteq> set (charset_of self)" by blast
  with ne show ?thesis
    unfolding set_charset_of [symmetric] by (simp add: generate_password_charset)
qed

theorem generate_password_charset_members_witness:
  "\<exists>password.
     fst (generate_password
            (init\<lparr>gen_length := 8, include_uppercase := False, include_symbols := False\<rparr>)
            (\<lambda>i. i * i + 5)) = Inr password
     \<and> set password \<subseteq> set ascii_lowercase \<union> set digits"
  using generate_password_charset_members
    [of "init\<lparr>gen_length := 8, include_uppercase := False, include_symbols := False\<rparr>"
        "\<lambda>i. i * i + 5"]
  by (simp add: init_def)

text \<open>
  C3. For every configuration in which the four category flags are all disabled,
  \<open>generate_password\<close> returns no password: it raises the error of the empty pool, the
  \<open>ValueError\<close> with the message "At least one character type must be selected".
\<close>

theorem generate_password_no_category:
  assumes "\<not> include_uppercase self" and "\<not> include_lowercase self"
    and "\<not> include_numbers self" and "\<not> include_symbols self"
  shows "fst (generate_password self rnd)
           = Inl (ValueError (str ''At least one character type must be selected''))"
  using assms by (simp add: generate_password_def)

theorem generate_password_no_category_witness:
  "fst (generate_password
          (init\<lparr>include_uppercase := False, include_lowercase := False,
                include_numbers := False, include_symbols := False\<rparr>) (\<lambda>i. i))
     = Inl (ValueError (str ''At least one character type must be selected''))"
  using generate_password_no_category
    [of "init\<lparr>include_uppercase := False, include_lowercase := False,
               include_numbers := False, include_symbols := False\<rparr>" "\<lambda>i. i"]
  by (simp add: init_def)

text \<open>
  C10. \<open>generate_password\<close> and \<open>assess_strength\<close> leave the generator as it was: after
  either call every field of the object (the length, the four category flags, the two
  bounds) holds the value it held before.
\<close>

theorem configuration_unchanged:
  "snd (generate_password self rnd) = self \<and> snd (assess_strength u self password) = self"
  by (simp add: generate_password_def assess_strength_def Let_def)

section \<open>The strength assessor\<close>

text \<open>
  C4. For every string \<open>p\<close>, \<open>assess_strength\<close> returns a member of \<open>PasswordStrength\<close>
  whose value is the sum of the six tests of the specification (one point each for
  length at least 12, length at least 16, an uppercase letter, a lowercase letter, a
  digit, a punctuation symbol), clamped to at most 4. The value of a member is its
  place on the scale \<open>VERY_WEAK\<close> = 0 to \<open>VERY_STRONG\<close> = 4 (\<open>strength_value\<close>).
\<close>

theorem assess_strength_refines_spec:
  "\<exists>s. fst (assess_strength u self p) = Inr s
       \<and> strength_value s = min (spec_raw_sum u p) 4"
proof -
  have "0 \<le> spec_level u p" and "spec_level u p \<le> 4"
    using spec_level_range [of u p] by simp_all
  from PasswordStrength_call_value [OF this] show ?thesis
    by (simp add: assess_strength_sum spec_level_def)
qed

theorem assess_strength_refines_spec_witness:
  "spec_raw_sum ascii_only (str ''Ab3!Ab3!Ab3!Ab3!'') = 6
   \<and> (\<exists>s. fst (assess_strength ascii_only init (str ''Ab3!Ab3!Ab3!Ab3!'')) = Inr s
          \<and> strength_value s = 4)"
proof -
  have v: "spec_raw_sum ascii_only (str ''Ab3!Ab3!Ab3!Ab3!'') = 6"
    by (simp add: spec_raw_sum_def str_def isupper_def islower_def isdigit_def punctuation_def)
  from assess_strength_refines_spec [of ascii_only init "str ''Ab3!Ab3!Ab3!Ab3!''"] v
  show ?thesis by simp
qed

text \<open>
  C5. For every two strings \<open>p\<close> and \<open>q\<close> with the same category presence (the same
  answers to the four tests for an uppercase letter, a lowercase letter, a digit and a
  punctuation symbol), if \<open>p\<close> is at least as long as \<open>q\<close> then the level of \<open>p\<close> is at
  least the level of \<open>q\<close>.
\<close>

theorem assess_strength_monotone:
  assumes "any (isupper u) p = any (isupper u) q"
    and "any (islower u) p = any (islower u) q"
    and "any (isdigit u) p = any (isdigit u) q"
    and "any (contains punctuation) p = any (contains punctuation) q"
    and "length p \<ge> length q"
  shows "\<exists>sp sq. fst (assess_strength u self p) = Inr sp
           \<and> fst (assess_strength u self q) = Inr sq
           \<and> strength_value sp \<ge> strength_value sq"
proof -
  obtain sp where sp: "fst (assess_strength u self p) = Inr sp"
      "strength_value sp = min (spec_raw_sum u p) 4"
    using assess_strength_sum [of u self p] spec_level_range [of u p]
      PasswordStrength_call_value [of "spec_level u p"] by (auto simp: spec_level_def)
  obtain sq where sq: "fst (assess_strength u self q) = Inr sq"
      "strength_value sq = min (spec_raw_sum u q) 4"
    using assess_strength_sum [of u self q] spec_level_range [of u q]
      PasswordStrength_call_value [of "spec_level u q"] by (auto simp: spec_level_def)
  from assms have "spec_raw_sum u q \<le> spec_raw_sum u p"
    by (simp add: spec_raw_sum_def any_iff contains_iff)
  with sp sq show ?thesis by simp
qed

theorem assess_strength_monotone_witness:
  "fst (assess_strength ascii_only init (str ''abcdefghijklmnopqrst'')) = Inr STRONG
   \<and> fst (assess_strength ascii_only init (str ''abcdefghij'')) = Inr WEAK
   \<and> (\<exists>sp sq. fst (assess_strength ascii_only init (str ''abcdefghijklmnopqrst'')) = Inr sp
           \<and> fst (assess_strength ascii_only init (str ''abcdefghij'')) = Inr sq
           \<and> strength_value sp \<ge> strength_value sq)"
proof -
  have "fst (assess_strength ascii_only init (str ''abcdefghijklmnopqrst'')) = Inr STRONG"
    by (simp add: assess_strength_def str_def isupper_def islower_def isdigit_def
        punctuation_def PasswordStrength_call_def Let_def)
  moreover have "fst (assess_strength ascii_only init (str ''abcdefghij'')) = Inr WEAK"
    by (simp add: assess_strength_def str_def isupper_def islower_def isdigit_def
        punctuation_def PasswordStrength_call_def Let_def)
  moreover have "\<exists>sp sq. fst (assess_strength ascii_only init (str ''abcdefghijklmnopqrst'')) = Inr sp
           \<and> fst (assess_strength ascii_only init (str ''abcdefghij'')) = Inr sq
           \<and> strength_value sp \<ge> strength_value sq"
    by (rule assess_strength_monotone)
      (simp_all add: str_def isupper_def islower_def isdigit_def punctuation_def)
  ultimately show ?thesis by blast
qed

text \<open>
  C6. \<open>assess_strength\<close> returns \<open>VERY_STRONG\<close>, level 4, for the password
  "Ab3!Ab3!Ab3!" and \<open>WEAK\<close>, level 1, for the password "abcdefgh".
\<close>

theorem assess_strength_examples:
  "fst (assess_strength u self (str ''Ab3!Ab3!Ab3!'')) = Inr VERY_STRONG
   \<and> strength_value VERY_STRONG = 4
   \<and> fst (assess_strength u self (str ''abcdefgh'')) = Inr WEAK
   \<and> strength_value WEAK = 1"
  by (simp add: assess_strength_def str_def isupper_def islower_def isdigit_def
      punctuation_def PasswordStrength_call_def Let_def)

text \<open>
  C9. \<open>assess_strength\<close> is total: for every string it returns a member of
  \<open>PasswordStrength\<close> and raises nothing, the level of the member lies in 0 to 4, and
  for the empty string the member is \<open>VERY_WEAK\<close>.
\<close>

theorem assess_strength_total:
  "(\<exists>s. fst (assess_strength u self p) = Inr s
        \<and> 0 \<le> strength_value s \<and> strength_value s \<le> 4)
   \<and> fst (assess_strength u self []) = Inr VERY_WEAK"
proof -
  have "0 \<le> spec_level u p" and "spec_level u p \<le> 4"
    using spec_level_range [of u p] by simp_all
  from PasswordStrength_call_value [OF this] obtain s
    where "PasswordStrength_call (spec_level u p) = Inr s" "strength_value s = spec_level u p"
    by blast
  with spec_level_range [of u p]
  have "\<exists>s. fst (assess_strength u self p) = Inr s
          \<and> 0 \<le> strength_value s \<and> strength_value s \<le> 4"
    by (simp add: assess_strength_sum)
  moreover have "fst (assess_strength u self []) = Inr VERY_WEAK"
    by (simp add: assess_strength_def PasswordStrength_call_def)
  ultimately show ?thesis by simp
qed

section \<open>The strength meter\<close>


section \<open>The command surface\<close>




end
